theory Spec2Isabelle
  imports Complex_Main "HOL-Library.Sublist" "HOL-Library.Char_ord" "HOL-Library.List_Lexorder"
    "HOL-Library.Product_Lexorder"
begin

section \<open>Data model\<close>

text \<open>
  One daily OHLCV row of the pandas frames handled by \<^verbatim>\<open>BinanceEODCollector\<close>
  (\<^verbatim>\<open>src/collector.py\<close>).  A \<^verbatim>\<open>datetime.date\<close> is represented by its proleptic
  ordinal (\<^verbatim>\<open>date.toordinal()\<close>), a Python float by a real number, a Python string by a
  \<open>string\<close>.  The column \<^verbatim>\<open>open\<close> is named \<open>open_price\<close>.
\<close>

record bar =
  date :: int
  open_price :: real
  high :: real
  low :: real
  close :: real
  volume :: real
  quote_volume :: real
  trades :: int
  symbol :: string

text \<open>
  The frame after enrichment carries four more columns; each cell is \<^verbatim>\<open>None\<close> until a
  value is stored into it.
\<close>

record enriched_bar = bar +
  market_cap :: "real option"
  circulating_supply :: "real option"
  total_supply :: "real option"
  max_supply :: "real option"

text \<open>
  One object of the provider's \<^verbatim>\<open>/coins/markets\<close> answer, read with \<^verbatim>\<open>coin['id']\<close> and
  \<^verbatim>\<open>coin.get(...)\<close> (\<open>None\<close> for an absent or null field), and the value stored under
  that id in the \<^verbatim>\<open>market_data\<close> dictionary.
\<close>

record coin =
  coin_id :: string
  coin_market_cap :: "real option"
  coin_circulating_supply :: "real option"
  coin_total_supply :: "real option"
  coin_max_supply :: "real option"

record market_entry =
  entry_market_cap :: "real option"
  entry_circulating_supply :: "real option"
  entry_total_supply :: "real option"
  entry_max_supply :: "real option"


section \<open>Symbol resolution\<close>

subsection \<open>\<^verbatim>\<open>BinanceEODCollector.extract_base_symbol\<close>\<close>

definition quote_assets :: "string list" where
  "quote_assets = [''USDT'', ''BUSD'', ''USDC'', ''BTC'', ''ETH'', ''BNB'', ''TRX'',
                   ''XRP'', ''TUSD'', ''PAX'', ''EUR'', ''GBP'', ''AUD'', ''TRY'']"

text \<open>\<^verbatim>\<open>s.endswith(q)\<close>.\<close>

definition endswith :: "string \<Rightarrow> string \<Rightarrow> bool" where
  "endswith s q = (length q \<le> length s \<and> drop (length s - length q) s = q)"

text \<open>The slice \<^verbatim>\<open>s[:-k]\<close> for \<open>k = len(quote)\<close>; Python reads \<^verbatim>\<open>s[:-0]\<close> as \<^verbatim>\<open>s[:0]\<close>.\<close>

definition strip_tail :: "string \<Rightarrow> nat \<Rightarrow> string" where
  "strip_tail s k = (if k = 0 then [] else take (length s - k) s)"

text \<open>
  The \<^verbatim>\<open>for quote in quote_assets\<close> loop: the first quote asset that ends the symbol and
  leaves a non-empty base decides; a match with an empty base falls through to the next
  quote asset; falling off the list returns \<^verbatim>\<open>None\<close>.
\<close>

fun extract_loop :: "string list \<Rightarrow> string \<Rightarrow> string option" where
  "extract_loop [] binance_symbol = None"
| "extract_loop (quote # rest) binance_symbol =
     (if endswith binance_symbol quote
      then (let base = strip_tail binance_symbol (length quote)
            in if base \<noteq> [] then Some base else extract_loop rest binance_symbol)
      else extract_loop rest binance_symbol)"

definition extract_base_symbol :: "string \<Rightarrow> string option" where
  "extract_base_symbol binance_symbol = extract_loop quote_assets binance_symbol"

subsection \<open>\<^verbatim>\<open>BinanceEODCollector.map_binance_to_coingecko\<close>\<close>

text \<open>
  \<open>coingecko_map\<close> is the dictionary that \<^verbatim>\<open>get_coingecko_coins_list()\<close> returns at this
  call (the cached listing, a fresh one, or \<^verbatim>\<open>{}\<close> after a failed request).
\<close>

definition map_binance_to_coingecko :: "(string \<rightharpoonup> string) \<Rightarrow> string \<Rightarrow> string option" where
  "map_binance_to_coingecko coingecko_map binance_symbol =
     (case extract_base_symbol binance_symbol of
        None \<Rightarrow> None
      | Some base_symbol \<Rightarrow> if base_symbol = [] then None else coingecko_map base_symbol)"

subsection \<open>\<^verbatim>\<open>CryptoDataCollector.map_binance_to_coingecko\<close> (\<^verbatim>\<open>crypto_collector_v2.py\<close>)\<close>

definition special_mappings :: "(string \<times> string) list" where
  "special_mappings =
     [(''BNB'', ''binancecoin''), (''WBTC'', ''wrapped-bitcoin''), (''WETH'', ''weth''),
      (''SHIB'', ''shiba-inu''), (''DOGE'', ''dogecoin''), (''MATIC'', ''matic-network'')]"

text \<open>
  The method reads and updates \<^verbatim>\<open>self.symbol_mapping\<close> (the persistent cache); the model
  takes the cache and returns the answer together with the cache afterwards.  The order of
  the three lookups is the order of the source: cache, \<^verbatim>\<open>symbol_to_id\<close> (the bulk
  listing), \<^verbatim>\<open>special_mappings\<close>.
\<close>

definition map_binance_to_coingecko_v2 ::
  "(string \<rightharpoonup> string) \<Rightarrow> string \<Rightarrow> (string \<rightharpoonup> string) \<Rightarrow> string option \<times> (string \<rightharpoonup> string)"
where
  "map_binance_to_coingecko_v2 symbol_mapping base_asset symbol_to_id =
     (case symbol_mapping base_asset of
        Some cached \<Rightarrow> (Some cached, symbol_mapping)
      | None \<Rightarrow>
         (case symbol_to_id base_asset of
            Some coingecko_id \<Rightarrow> (Some coingecko_id, symbol_mapping(base_asset \<mapsto> coingecko_id))
          | None \<Rightarrow>
             (case map_of special_mappings base_asset of
                Some coingecko_id \<Rightarrow>
                  (Some coingecko_id, symbol_mapping(base_asset \<mapsto> coingecko_id))
              | None \<Rightarrow> (None, symbol_mapping))))"


section \<open>\<^verbatim>\<open>CryptoDataCollector.get_historical_data\<close>\<close>

text \<open>
  What one \<^verbatim>\<open>requests.get\<close> of the market chart does: it answers with the three series
  (each a list of \<^verbatim>\<open>[timestamp, value]\<close> pairs), \<^verbatim>\<open>raise_for_status\<close> raises an
  \<^verbatim>\<open>HTTPError\<close> carrying a status code, or another exception is raised.
\<close>

record market_chart =
  prices :: "(int \<times> real) list"
  market_caps :: "(int \<times> real) list"
  total_volumes :: "(int \<times> real) list"

datatype chart_outcome = ChartOk market_chart | HTTPError nat | OtherException

record chart_row =
  row_timestamp :: int
  row_price :: real
  row_market_cap :: real
  row_volume :: real

datatype event = Request | Sleep nat

text \<open>
  The rows built from a successful answer; the \<^verbatim>\<open>date\<close> column is a rendering of the
  timestamp in the local time zone and is left out.
\<close>

definition chart_rows :: "market_chart \<Rightarrow> chart_row list" where
  "chart_rows data =
     (if prices data = [] \<or> market_caps data = [] \<or> total_volumes data = [] then []
      else map (\<lambda>(price_data, mcap_data, vol_data).
                 \<lparr>row_timestamp = fst price_data, row_price = snd price_data,
                  row_market_cap = snd mcap_data, row_volume = snd vol_data\<rparr>)
               (zip (prices data) (zip (market_caps data) (total_volumes data))))"

text \<open>
  \<open>http k\<close> is the outcome of the \<open>k\<close>-th request sent to the provider, \<open>n\<close> the number of
  requests sent so far, \<open>tr\<close> the requests and sleeps so far.  On status 429 the method
  sleeps 60 seconds and calls itself; the call may not return, so the result is an option
  (\<open>None\<close>: no return).  The clock-driven pause of \<^verbatim>\<open>rate_limit_coingecko\<close> is not part of the
  model.
\<close>

partial_function (option) get_historical_data ::
  "(nat \<Rightarrow> chart_outcome) \<Rightarrow> nat \<Rightarrow> event list \<Rightarrow> (chart_row list \<times> nat \<times> event list) option"
where
  "get_historical_data http n tr =
     (case http n of
        ChartOk data \<Rightarrow> Some (chart_rows data, Suc n, tr @ [Request])
      | HTTPError status_code \<Rightarrow>
          if status_code = 429
          then get_historical_data http (Suc n) (tr @ [Request, Sleep 60])
          else Some ([], Suc n, tr @ [Request])
      | OtherException \<Rightarrow> Some ([], Suc n, tr @ [Request]))"


section \<open>\<^verbatim>\<open>BinanceEODCollector.get_historical_klines\<close>\<close>

text \<open>
  One candle of the exchange's answer; the numeric fields arrive as text.  The client call
  returns the candles or raises.
\<close>

record kline =
  k_timestamp :: int
  k_open :: string
  k_high :: string
  k_low :: string
  k_close :: string
  k_volume :: string
  k_close_time :: int
  k_quote_volume :: string
  k_trades :: int
  k_taker_buy_base :: string
  k_taker_buy_quote :: string
  k_ignore :: string

datatype klines_outcome = Klines "kline list" | BinanceAPIException | UnexpectedException

text \<open>
  \<^verbatim>\<open>pd.to_datetime(ts, unit='ms').dt.date\<close>: the UTC day of a millisecond timestamp, as an
  ordinal (1970-01-01 has ordinal 719163).
\<close>

definition date_of_ms :: "int \<Rightarrow> int" where
  "date_of_ms ts = 719163 + ts div 86400000"

text \<open>
  \<open>to_float\<close> stands for Python's \<^verbatim>\<open>float(text)\<close>, \<open>None\<close> where it raises \<^verbatim>\<open>ValueError\<close>.
  \<open>parse_kline\<close> is one row under the six \<^verbatim>\<open>astype(float)\<close> conversions: it has a value
  when all six cells convert.
\<close>

definition parse_kline :: "(string \<Rightarrow> real option) \<Rightarrow> string \<Rightarrow> kline \<Rightarrow> bar option" where
  "parse_kline to_float pair_symbol k =
     (case (to_float (k_open k), to_float (k_high k), to_float (k_low k),
            to_float (k_close k), to_float (k_volume k), to_float (k_quote_volume k)) of
        (Some o', Some h, Some l, Some c, Some v, Some q) \<Rightarrow>
          Some \<lparr>date = date_of_ms (k_timestamp k), open_price = o', high = h, low = l,
                close = c, volume = v, quote_volume = q, trades = k_trades k, symbol = pair_symbol\<rparr>
      | _ \<Rightarrow> None)"

text \<open>
  \<^verbatim>\<open>df[col].astype(float)\<close> converts a whole column and raises at the first cell that does
  not convert; the exception leaves the \<^verbatim>\<open>try\<close> block and the \<^verbatim>\<open>except Exception\<close> handler
  returns an empty frame.  So the frame is built only if every row converts.
\<close>

definition astype_float :: "(string \<Rightarrow> real option) \<Rightarrow> string \<Rightarrow> kline list \<Rightarrow> bar list option" where
  "astype_float to_float pair_symbol klines =
     (if list_all (\<lambda>k. parse_kline to_float pair_symbol k \<noteq> None) klines
      then Some (map (\<lambda>k. the (parse_kline to_float pair_symbol k)) klines)
      else None)"

definition get_historical_klines ::
  "(string \<Rightarrow> real option) \<Rightarrow> klines_outcome \<Rightarrow> string \<Rightarrow> bar list" where
  "get_historical_klines to_float answer pair_symbol =
     (case answer of
        BinanceAPIException \<Rightarrow> []
      | UnexpectedException \<Rightarrow> []
      | Klines klines \<Rightarrow>
          if klines = [] then []
          else (case astype_float to_float pair_symbol klines of
                  None \<Rightarrow> []
                | Some df \<Rightarrow> df))"

text \<open>
  A reader of unsigned decimal numerals (\<^verbatim>\<open>12\<close>, \<^verbatim>\<open>100.5\<close>), a fragment of what
  \<^verbatim>\<open>float(text)\<close> accepts, used to run the model on concrete candles.
\<close>

definition digit_val :: "char \<Rightarrow> nat option" where
  "digit_val c = (if CHR ''0'' \<le> c \<and> c \<le> CHR ''9'' then Some (of_char c - 48) else None)"

fun digits_val :: "nat \<Rightarrow> string \<Rightarrow> nat option" where
  "digits_val acc [] = Some acc"
| "digits_val acc (c # cs) =
     (case digit_val c of None \<Rightarrow> None | Some d \<Rightarrow> digits_val (10 * acc + d) cs)"

definition decimal_float :: "string \<Rightarrow> real option" where
  "decimal_float s =
     (let ip = takeWhile (\<lambda>c. c \<noteq> CHR ''.'') s; rest = dropWhile (\<lambda>c. c \<noteq> CHR ''.'') s
      in if ip = [] then None
         else (case digits_val 0 ip of
                 None \<Rightarrow> None
               | Some i \<Rightarrow>
                  (if rest = [] then Some (real i)
                   else if tl rest = [] then None
                   else (case digits_val 0 (tl rest) of
                           None \<Rightarrow> None
                         | Some f \<Rightarrow> Some (real i + real f / 10 ^ length (tl rest))))))"



section \<open>\<^verbatim>\<open>BinanceEODCollector.get_coingecko_market_data\<close>\<close>

definition batch_size :: nat where
  "batch_size = 250"

text \<open>The inner loop \<^verbatim>\<open>for coin in data\<close>: a later object with the same id overwrites.\<close>

fun store_coins :: "coin list \<Rightarrow> (string \<rightharpoonup> market_entry) \<Rightarrow> (string \<rightharpoonup> market_entry)" where
  "store_coins [] market_data = market_data"
| "store_coins (c # data) market_data =
     store_coins data
       (market_data(coin_id c \<mapsto>
          \<lparr>entry_market_cap = coin_market_cap c,
           entry_circulating_supply = coin_circulating_supply c,
           entry_total_supply = coin_total_supply c,
           entry_max_supply = coin_max_supply c\<rparr>))"

text \<open>
  The loop \<^verbatim>\<open>for i in range(0, len(coingecko_ids), batch_size)\<close>.  \<open>http k batch\<close> is the
  outcome of the \<open>k\<close>-th request of the call, sent for \<open>batch\<close>: the decoded list of coin
  objects, or \<open>None\<close> when a \<^verbatim>\<open>RequestException\<close> is raised (the handler logs and goes on to
  the next batch).  The state is the dictionary built so far and the log of the requests
  sent, each with its outcome.
\<close>

function market_data_loop ::
  "(nat \<Rightarrow> string list \<Rightarrow> coin list option) \<Rightarrow> string list \<Rightarrow> nat \<Rightarrow>
   (string \<rightharpoonup> market_entry) \<times> (string list \<times> coin list option) list \<Rightarrow>
   (string \<rightharpoonup> market_entry) \<times> (string list \<times> coin list option) list"
where
  "market_data_loop http coingecko_ids i (market_data, sent) =
     (if i < length coingecko_ids
      then (let batch = take batch_size (drop i coingecko_ids);
                response = http (length sent) batch
            in market_data_loop http coingecko_ids (i + batch_size)
                 ((case response of
                     Some data \<Rightarrow> store_coins data market_data
                   | None \<Rightarrow> market_data),
                  sent @ [(batch, response)]))
      else (market_data, sent))"
  by pat_completeness auto
termination
  by (relation "measure (\<lambda>(http, coingecko_ids, i, st). length coingecko_ids - i)")
     (auto simp: batch_size_def)

declare market_data_loop.simps [simp del]

definition get_coingecko_market_data ::
  "(nat \<Rightarrow> string list \<Rightarrow> coin list option) \<Rightarrow> string list \<Rightarrow>
   (string \<rightharpoonup> market_entry) \<times> (string list \<times> coin list option) list"
where
  "get_coingecko_market_data http coingecko_ids =
     (if coingecko_ids = [] then (Map.empty, [])
      else market_data_loop http coingecko_ids 0 (Map.empty, []))"

text \<open>The ids carried by the answers of the requests that succeeded.\<close>

definition returned_ids :: "(string list \<times> coin list option) list \<Rightarrow> string set" where
  "returned_ids sent =
     (\<Union>(batch, response) \<in> set sent.
        case response of None \<Rightarrow> {} | Some data \<Rightarrow> coin_id ` set data)"


section \<open>\<^verbatim>\<open>BinanceEODCollector.enrich_with_coingecko_data\<close>\<close>

text \<open>\<^verbatim>\<open>Series.unique()\<close>: the distinct values in order of first appearance.\<close>

definition unique :: "'a list \<Rightarrow> 'a list" where
  "unique xs = rev (remdups (rev xs))"

text \<open>
  The loop \<^verbatim>\<open>for symbol in symbols\<close>, building \<^verbatim>\<open>symbol_to_coingecko\<close> (a dictionary, kept
  here as the list of its items in insertion order; the symbols are distinct) and
  \<^verbatim>\<open>skipped_symbols\<close>.  \<open>listing s\<close> is the dictionary that \<^verbatim>\<open>get_coingecko_coins_list()\<close>
  returns at the call made for symbol \<open>s\<close>.  The test \<^verbatim>\<open>if cg_id\<close> fails for \<^verbatim>\<open>None\<close> and for
  the empty string.
\<close>

fun map_symbols ::
  "(string \<Rightarrow> (string \<rightharpoonup> string)) \<Rightarrow> string list \<Rightarrow> (string \<times> string) list \<times> string list"
where
  "map_symbols listing [] = ([], [])"
| "map_symbols listing (s # symbols) =
     (let (symbol_to_coingecko, skipped_symbols) = map_symbols listing symbols
      in case map_binance_to_coingecko (listing s) s of
           None \<Rightarrow> (symbol_to_coingecko, s # skipped_symbols)
         | Some cg_id \<Rightarrow>
             if cg_id = [] then (symbol_to_coingecko, s # skipped_symbols)
             else ((s, cg_id) # symbol_to_coingecko, skipped_symbols))"

text \<open>
  One pass of the loop \<^verbatim>\<open>for idx, row in df.iterrows()\<close> over a row whose four new cells
  start as \<^verbatim>\<open>None\<close>.
\<close>

definition enrich_row ::
  "(string \<times> string) list \<Rightarrow> (string \<rightharpoonup> market_entry) \<Rightarrow> bar \<Rightarrow> enriched_bar" where
  "enrich_row symbol_to_coingecko market_data row =
     (let blank = bar.extend row
            (enriched_bar.fields None None None None)
      in case map_of symbol_to_coingecko (symbol row) of
           None \<Rightarrow> blank
         | Some cg_id \<Rightarrow>
             (case market_data cg_id of
                None \<Rightarrow> blank
              | Some e \<Rightarrow>
                  blank\<lparr>market_cap := entry_market_cap e,
                        circulating_supply := entry_circulating_supply e,
                        total_supply := entry_total_supply e,
                        max_supply := entry_max_supply e\<rparr>))"

text \<open>
  The method returns the filtered frame and the skipped symbols.  \<^verbatim>\<open>additional_skipped\<close> is
  a Python set appended to a list: its elements arrive in an order the source does not
  fix, and the model lists them by first appearance.
\<close>

definition enrich_with_coingecko_data ::
  "(string \<Rightarrow> (string \<rightharpoonup> string)) \<Rightarrow> (nat \<Rightarrow> string list \<Rightarrow> coin list option) \<Rightarrow> bar list \<Rightarrow>
   enriched_bar list \<times> string list"
where
  "enrich_with_coingecko_data listing http df =
     (if df = [] then ([], [])
      else
        (let symbols = unique (map symbol df);
             (symbol_to_coingecko, skipped_symbols) = map_symbols listing symbols
         in if symbol_to_coingecko = [] then ([], symbols)
            else
              (let coingecko_ids = map snd symbol_to_coingecko;
                   market_data = fst (get_coingecko_market_data http coingecko_ids);
                   df' = map (enrich_row symbol_to_coingecko market_data) df;
                   df_filtered = filter (\<lambda>r. market_cap r \<noteq> None) df';
                   additional_skipped =
                     unique (map symbol (filter (\<lambda>r. market_cap r = None) df'))
               in (df_filtered, skipped_symbols @ additional_skipped))))"

text \<open>
  The market data that a call of \<open>enrich_with_coingecko_data\<close> fetches for a frame: the
  ids sent are the values of \<^verbatim>\<open>symbol_to_coingecko\<close>.
\<close>

definition fetched_market_data ::
  "(string \<Rightarrow> (string \<rightharpoonup> string)) \<Rightarrow> (nat \<Rightarrow> string list \<Rightarrow> coin list option) \<Rightarrow> bar list \<Rightarrow>
   (string \<rightharpoonup> market_entry)"
where
  "fetched_market_data listing http df =
     fst (get_coingecko_market_data http
            (map snd (fst (map_symbols listing (unique (map symbol df))))))"


section \<open>\<^verbatim>\<open>BinanceEODCollector.save_to_csv\<close>\<close>

text \<open>
  The data directory is a map from paths to files; a CSV file is represented by the rows
  it holds, in file order (\<^verbatim>\<open>to_csv\<close> followed by \<^verbatim>\<open>read_csv\<close> gives the rows back).
\<close>

type_synonym 'a csv_files = "string \<rightharpoonup> 'a bar_scheme list"

text \<open>\<^verbatim>\<open>os.path.join(a, b)\<close> on a POSIX system.\<close>

definition os_path_join :: "string \<Rightarrow> string \<Rightarrow> string" where
  "os_path_join a b =
     (if b \<noteq> [] \<and> hd b = CHR ''/'' then b
      else if a = [] \<or> last a = CHR ''/'' then a @ b
      else a @ ''/'' @ b)"

text \<open>
  \<^verbatim>\<open>drop_duplicates(subset=['date', 'symbol'], keep='last')\<close>: a row is dropped when a later
  row has the same key; the rows kept stay in order.
\<close>

fun drop_duplicates :: "('r \<Rightarrow> 'k) \<Rightarrow> 'r list \<Rightarrow> 'r list" where
  "drop_duplicates key [] = []"
| "drop_duplicates key (r # rows) =
     (if key r \<in> set (map key rows) then drop_duplicates key rows
      else r # drop_duplicates key rows)"

definition date_symbol :: "'a bar_scheme \<Rightarrow> int \<times> string" where
  "date_symbol r = (date r, symbol r)"

definition symbol_date :: "'a bar_scheme \<Rightarrow> string \<times> int" where
  "symbol_date r = (symbol r, date r)"

text \<open>
  \<^verbatim>\<open>sort_values(['symbol', 'date'])\<close>: ascending by symbol (strings compare by code point,
  lexicographically), then by date.
\<close>

definition sort_values :: "'a bar_scheme list \<Rightarrow> 'a bar_scheme list" where
  "sort_values rows = sort_key symbol_date rows"

definition save_to_csv ::
  "string \<Rightarrow> 'a bar_scheme list \<Rightarrow> string \<Rightarrow> string \<Rightarrow> 'a csv_files \<Rightarrow> 'a csv_files" where
  "save_to_csv data_dir df filename mode files =
     (if df = [] then files
      else
        (let filepath = os_path_join data_dir filename
         in if mode = ''a'' \<and> files filepath \<noteq> None
            then (let existing_df = the (files filepath);
                      combined_df = existing_df @ df;
                      combined_df = drop_duplicates date_symbol combined_df;
                      combined_df = sort_values combined_df
                  in files(filepath \<mapsto> combined_df))
            else files(filepath \<mapsto> df)))"

text \<open>The rows of the file at a path; a missing file has none.\<close>

definition file_rows :: "'a csv_files \<Rightarrow> string \<Rightarrow> 'a bar_scheme set" where
  "file_rows files filepath = (case files filepath of None \<Rightarrow> {} | Some rows \<Rightarrow> set rows)"



section \<open>Suffix extraction\<close>

lemma endswith_suffix: "endswith s q = suffix q s"
  by (auto simp: endswith_def suffix_def) (metis append_take_drop_id)

lemma quote_assets_antichain:
  "\<forall>q\<in>set quote_assets. \<forall>q'\<in>set quote_assets. suffix q q' \<longrightarrow> q = q'"
  by code_simp

lemma quote_assets_nonempty: "\<forall>q\<in>set quote_assets. q \<noteq> []"
  by code_simp

lemma strip_tail_append: "Q \<noteq> [] \<Longrightarrow> strip_tail (B @ Q) (length Q) = B"
  by (simp add: strip_tail_def)

lemma extract_loop_none:
  "\<forall>q\<in>set qs. \<not> endswith s q \<Longrightarrow> extract_loop qs s = None"
  by (induction qs) auto

lemma extract_loop_hit:
  assumes "Q \<in> set qs" "B \<noteq> []" "Q \<noteq> []"
    and "\<forall>q\<in>set qs. endswith (B @ Q) q \<longrightarrow> q = Q"
  shows "extract_loop qs (B @ Q) = Some B"
  using assms
proof (induction qs)
  case Nil
  then show ?case by simp
next
  case (Cons q qs)
  show ?case
  proof (cases "endswith (B @ Q) q")
    case True
    with Cons.prems have "q = Q" by simp
    with True Cons.prems show ?thesis by (simp add: strip_tail_append)
  next
    case False
    have "suffix Q (B @ Q)" by (simp add: suffix_def)
    with False have "q \<noteq> Q" by (auto simp: endswith_suffix)
    with Cons.prems have "Q \<in> set qs" by auto
    with False Cons show ?thesis by simp
  qed
qed

text \<open>
  Two recognized quote assets that both end one symbol are the same quote asset, because
  none of the fourteen is a suffix of another.
\<close>

lemma only_own_quote:
  assumes "Q \<in> set quote_assets" "q \<in> set quote_assets" "endswith (B @ Q) q"
  shows "q = Q"
proof -
  from assms(3) have s: "suffix q (B @ Q)" by (simp add: endswith_suffix)
  have "suffix Q (B @ Q)" by (simp add: suffix_def)
  with s have "suffix q Q \<or> suffix Q q"
    by (rule suffix_same_cases)
  with assms(1,2) quote_assets_antichain show ?thesis by blast
qed

text \<open>
  Claim C5 (suffix extraction determinism).  For every recognized quote asset \<open>Q\<close> and
  every non-empty \<open>B\<close>, \<open>extract_base_symbol (B @ Q)\<close> returns exactly \<open>B\<close>; for every
  symbol that ends in no recognized quote asset it returns \<open>None\<close> (a value, not an
  exception).
\<close>

theorem extract_base_symbol_suffix:
  "(Q \<in> set quote_assets \<and> B \<noteq> [] \<longrightarrow> extract_base_symbol (B @ Q) = Some B) \<and>
   ((\<forall>q\<in>set quote_assets. \<not> endswith s q) \<longrightarrow> extract_base_symbol s = None)"
proof (intro conjI impI)
  assume a: "Q \<in> set quote_assets \<and> B \<noteq> []"
  then have "Q \<noteq> []" using quote_assets_nonempty by blast
  moreover have "\<forall>q\<in>set quote_assets. endswith (B @ Q) q \<longrightarrow> q = Q"
    using a only_own_quote by blast
  ultimately show "extract_base_symbol (B @ Q) = Some B"
    unfolding extract_base_symbol_def using a by (intro extract_loop_hit) auto
next
  assume "\<forall>q\<in>set quote_assets. \<not> endswith s q"
  then show "extract_base_symbol s = None"
    unfolding extract_base_symbol_def by (rule extract_loop_none)
qed

theorem extract_base_symbol_suffix_witness:
  "extract_base_symbol (''BTC'' @ ''USDT'') = Some ''BTC'' \<and>
   extract_base_symbol ''BTCUSD'' = None"
proof -
  have 1: "''USDT'' \<in> set quote_assets \<and> ''BTC'' \<noteq> []" by code_simp
  have 2: "\<forall>q\<in>set quote_assets. \<not> endswith ''BTCUSD'' q" by code_simp
  from extract_base_symbol_suffix[of "''USDT''" "''BTC''" "''BTCUSD''"] 1 2
  show ?thesis by blast
qed

end
